theory Spec2Isabelle
  imports Main
begin

section \<open>The document tree that the components are placed into\<close>

text \<open>
  \<^verbatim>\<open>_UiComponent.js\<close> creates and moves DOM nodes through \<^verbatim>\<open>dojo/dom-construct\<close>.
  A node is a reference (a number); the document is a store giving each node
  its data, its parent and its ordered children. Every operation takes the
  store and returns the new one; what raises in the browser is a value of
  \<open>js_error\<close>.
\<close>

type_synonym node = nat
type_synonym ref = nat

datatype js_error = TypeError | HierarchyRequestError | InvalidCharacterError

text \<open>
  JavaScript values, as far as the component code handles them. A function
  value and an opaque object (a root, an owner, a constructor) are references;
  an object literal is its list of properties.
\<close>

datatype jsval =
    Undefined | Null | BoolV bool | NumV int | StrV string
  | NodeV node | FnV ref | RefV ref
  | Obj "(string \<times> jsval) list" | Arr "jsval list"

fun truthy :: "jsval \<Rightarrow> bool" where
  "truthy Undefined = False"
| "truthy Null = False"
| "truthy (BoolV b) = b"
| "truthy (NumV i) = (i \<noteq> 0)"
| "truthy (StrV s) = (s \<noteq> [])"
| "truthy _ = True"

fun isFunction :: "jsval \<Rightarrow> bool" where
  "isFunction (FnV f) = True"
| "isFunction _ = False"

text \<open>Reading a property: \<^verbatim>\<open>o.k\<close> is undefined when \<open>o\<close> has no such property.\<close>

definition get_prop :: "(string \<times> jsval) list \<Rightarrow> string \<Rightarrow> jsval" where
  "get_prop kvs k = (case map_of kvs k of None \<Rightarrow> Undefined | Some v \<Rightarrow> v)"

fun get_field :: "jsval \<Rightarrow> string \<Rightarrow> jsval" where
  "get_field (Obj kvs) k = get_prop kvs k"
| "get_field _ k = Undefined"

fun set_prop :: "string \<Rightarrow> jsval \<Rightarrow> (string \<times> jsval) list \<Rightarrow> (string \<times> jsval) list" where
  "set_prop k v [] = [(k, v)]"
| "set_prop k v (kv # kvs) = (if fst kv = k then (k, v) # kvs else kv # set_prop k v kvs)"

text \<open>\<^verbatim>\<open>lang.mixin(dest, source)\<close>: every property of the source is written onto the destination; a source that is no object adds nothing.\<close>

fun mixin :: "(string \<times> jsval) list \<Rightarrow> jsval \<Rightarrow> (string \<times> jsval) list" where
  "mixin dest (Obj src) = foldl (\<lambda>acc kv. set_prop (fst kv) (snd kv) acc) dest src"
| "mixin dest _ = dest"

datatype node_data =
    Element string "(string \<times> jsval) list"
  | Parsed string

record dom =
  nodeData :: "node \<Rightarrow> node_data option"
  classList :: "node \<Rightarrow> string list"
  parentNode :: "node \<Rightarrow> node option"
  childNodes :: "node \<Rightarrow> node list"
  nextNode :: node

definition empty_dom :: dom where
  "empty_dom = \<lparr> nodeData = (\<lambda>_. None), classList = (\<lambda>_. []),
     parentNode = (\<lambda>_. None), childNodes = (\<lambda>_. []), nextNode = 0 \<rparr>"

text \<open>\<^verbatim>\<open>n.parentNode.removeChild(n)\<close>, guarded by \<^verbatim>\<open>n.parentNode\<close> as every call in the source is.\<close>

definition remove_from_parent :: "node \<Rightarrow> dom \<Rightarrow> dom" where
  "remove_from_parent n d =
     (case parentNode d n of
        None \<Rightarrow> d
      | Some p \<Rightarrow> d\<lparr> childNodes := (childNodes d)(p := remove1 n (childNodes d p)),
                     parentNode := (parentNode d)(n := None) \<rparr>)"

text \<open>Is \<open>a\<close> the node \<open>n\<close> or one of its ancestors? The walk up is bounded by the number of nodes.\<close>

fun anc_upto :: "nat \<Rightarrow> dom \<Rightarrow> node \<Rightarrow> node \<Rightarrow> bool" where
  "anc_upto 0 d a n = (a = n)"
| "anc_upto (Suc k) d a n =
     (a = n \<or> (case parentNode d n of None \<Rightarrow> False | Some p \<Rightarrow> anc_upto k d a p))"

definition inclusive_ancestor :: "dom \<Rightarrow> node \<Rightarrow> node \<Rightarrow> bool" where
  "inclusive_ancestor d a n = anc_upto (nextNode d) d a n"

text \<open>\<^verbatim>\<open>p.appendChild(n)\<close>: the node leaves its old parent first; a node cannot go under itself.\<close>

definition appendChild :: "node \<Rightarrow> node \<Rightarrow> dom \<Rightarrow> js_error + dom" where
  "appendChild p n d =
     (if inclusive_ancestor d n p then Inl HierarchyRequestError
      else let d1 = remove_from_parent n d
           in Inr (d1\<lparr> childNodes := (childNodes d1)(p := childNodes d1 p @ [n]),
                       parentNode := (parentNode d1)(n := Some p) \<rparr>))"

fun insert_before_list :: "node \<Rightarrow> node \<Rightarrow> node list \<Rightarrow> node list" where
  "insert_before_list n r [] = [n]"
| "insert_before_list n r (c # cs) =
     (if c = r then n # c # cs else c # insert_before_list n r cs)"

text \<open>\<^verbatim>\<open>p.insertBefore(n, r)\<close> for a child \<open>r\<close> of \<open>p\<close>; inserting a node before itself changes nothing.\<close>

definition insertBefore :: "node \<Rightarrow> node \<Rightarrow> node \<Rightarrow> dom \<Rightarrow> js_error + dom" where
  "insertBefore p n r d =
     (if inclusive_ancestor d n p then Inl HierarchyRequestError
      else if n = r then Inr d
      else let d1 = remove_from_parent n d
           in Inr (d1\<lparr> childNodes := (childNodes d1)(p := insert_before_list n r (childNodes d1 p)),
                       parentNode := (parentNode d1)(n := Some p) \<rparr>))"

text \<open>dom-construct's private \<^verbatim>\<open>_insertBefore(node, ref)\<close>: nothing happens when \<open>ref\<close> has no parent.\<close>

definition insert_before_ref :: "node \<Rightarrow> node \<Rightarrow> dom \<Rightarrow> js_error + dom" where
  "insert_before_ref n r d =
     (case parentNode d r of None \<Rightarrow> Inr d | Some p \<Rightarrow> insertBefore p n r d)"

text \<open>dom-construct's private \<^verbatim>\<open>_insertAfter(node, ref)\<close>.\<close>

definition insert_after_ref :: "node \<Rightarrow> node \<Rightarrow> dom \<Rightarrow> js_error + dom" where
  "insert_after_ref n r d =
     (case parentNode d r of
        None \<Rightarrow> Inr d
      | Some p \<Rightarrow>
          (case dropWhile (\<lambda>c. c \<noteq> r) (childNodes d p) of
             _ # s # _ \<Rightarrow> insertBefore p n s d
           | _ \<Rightarrow> appendChild p n d))"

text \<open>
  \<^verbatim>\<open>domConstruct.place(node, refNode, position)\<close> of dojo/dom-construct. A
  number is an index into the children of \<open>refNode\<close>: past the end it appends,
  otherwise it inserts before the child now at that index (a negative index
  counts as 0). A string is one of the keywords; anything else, also no
  position at all, appends. A missing \<open>refNode\<close> or node is dereferenced and raises.
\<close>

fun as_node :: "jsval \<Rightarrow> node option" where
  "as_node (NodeV n) = Some n"
| "as_node _ = None"

fun place_kw :: "node \<Rightarrow> node \<Rightarrow> string \<Rightarrow> dom \<Rightarrow> js_error + dom" where
  "place_kw n r s d =
     (if s = ''before'' then insert_before_ref n r d
      else if s = ''after'' then insert_after_ref n r d
      else if s = ''replace'' then
        (case parentNode d r of
           None \<Rightarrow> Inl TypeError
         | Some p \<Rightarrow>
             (case insertBefore p n r d of
                Inl e \<Rightarrow> Inl e
              | Inr d1 \<Rightarrow> Inr (if n = r then d1 else remove_from_parent r d1)))
      else if s = ''only'' then
        appendChild r n
          (d\<lparr> parentNode := (\<lambda>c. if c \<in> set (childNodes d r) then None else parentNode d c),
              childNodes := (childNodes d)(r := []) \<rparr>)
      else if s = ''first'' \<and> childNodes d r \<noteq> [] then
        insert_before_ref n (hd (childNodes d r)) d
      else appendChild r n d)"

fun place_at :: "node \<Rightarrow> node \<Rightarrow> jsval \<Rightarrow> dom \<Rightarrow> js_error + dom" where
  "place_at n r (NumV i) d =
     (let cn = childNodes d r
      in if cn = [] \<or> int (length cn) \<le> i then appendChild r n d
         else insert_before_ref n (cn ! (if i < 0 then 0 else nat i)) d)"
| "place_at n r (StrV s) d = place_kw n r s d"
| "place_at n r _ d = appendChild r n d"

definition place :: "jsval \<Rightarrow> jsval \<Rightarrow> jsval \<Rightarrow> dom \<Rightarrow> js_error + dom" where
  "place nodeV refNode pos d =
     (case (as_node nodeV, as_node refNode) of
        (Some n, Some r) \<Rightarrow> place_at n r pos d
      | _ \<Rightarrow> Inl TypeError)"


subsection \<open>Creating nodes\<close>

definition name_start_chars :: string where
  "name_start_chars = ''abcdefghijklmnopqrstuvwxyzABCDEFGHIJKLMNOPQRSTUVWXYZ_:''"

definition name_chars :: string where
  "name_chars = name_start_chars @ ''0123456789-.''"

text \<open>\<^verbatim>\<open>document.createElement\<close> refuses a string that is no element name (ASCII names only here).\<close>

definition valid_name :: "string \<Rightarrow> bool" where
  "valid_name s = (s \<noteq> [] \<and> hd s \<in> set name_start_chars \<and> list_all (\<lambda>c. c \<in> set name_chars) s)"

definition new_node :: "node_data \<Rightarrow> dom \<Rightarrow> node \<times> dom" where
  "new_node nd d =
     (nextNode d, d\<lparr> nodeData := (nodeData d)(nextNode d := Some nd), nextNode := Suc (nextNode d) \<rparr>)"

text \<open>
  \<^verbatim>\<open>attr.set(node, attrs)\<close>: one write per property of \<open>attrs\<close>, each of which
  dereferences the node. The attributes are kept as written (the mapping of
  \<^verbatim>\<open>class\<close>, \<^verbatim>\<open>style\<close> and \<^verbatim>\<open>innerHTML\<close> onto node properties is not followed).
\<close>

fun attr_set :: "jsval \<Rightarrow> jsval \<Rightarrow> dom \<Rightarrow> js_error + dom" where
  "attr_set nodeV (Obj kvs) d =
     (if kvs = [] then Inr d
      else (case nodeV of
              NodeV n \<Rightarrow>
                (case nodeData d n of
                   Some (Element t as) \<Rightarrow> Inr (d\<lparr> nodeData := (nodeData d)(n := Some (Element t (mixin as (Obj kvs)))) \<rparr>)
                 | _ \<Rightarrow> Inr d)
            | _ \<Rightarrow> Inl TypeError))"
| "attr_set nodeV _ d = Inr d"

text \<open>
  \<^verbatim>\<open>domConstruct.create(tag, attrs)\<close> of dojo/dom-construct:
  \<^verbatim>\<open>if(typeof tag == "string"){ tag = doc.createElement(tag); }
  if(attrs){ attr.set(tag, attrs); }
  return tag;\<close>
  A tag that is no string is handed back as it came.
\<close>

definition create :: "jsval \<Rightarrow> jsval \<Rightarrow> dom \<Rightarrow> js_error + (jsval \<times> dom)" where
  "create tag attrs d =
     (case (case tag of
              StrV s \<Rightarrow> (if valid_name s
                         then (let (n, d1) = new_node (Element s []) d in Inr (NodeV n, d1))
                         else Inl InvalidCharacterError)
            | _ \<Rightarrow> Inr (tag, d)) of
        Inl e \<Rightarrow> Inl e
      | Inr (t, d1) \<Rightarrow>
          (if truthy attrs
           then (case attr_set t attrs d1 of Inl e \<Rightarrow> Inl e | Inr d2 \<Rightarrow> Inr (t, d2))
           else Inr (t, d1)))"

text \<open>
  \<^verbatim>\<open>domConstruct.toDom(markup)\<close>: the node that parsing the markup gives. The
  parser is the browser's; the node records the markup it came from. The
  descriptor's \<^verbatim>\<open>content\<close> is a markup string or a function returning one.
\<close>

fun markup_of :: "jsval \<Rightarrow> string" where
  "markup_of (StrV s) = s"
| "markup_of _ = []"

definition toDom :: "jsval \<Rightarrow> dom \<Rightarrow> jsval \<times> dom" where
  "toDom frag d = (let (n, d1) = new_node (Parsed (markup_of frag)) d in (NodeV n, d1))"

text \<open>\<^verbatim>\<open>domClass.add(node, classStr)\<close>.\<close>

fun domClass_add :: "jsval \<Rightarrow> jsval \<Rightarrow> dom \<Rightarrow> js_error + dom" where
  "domClass_add (NodeV n) (StrV c) d =
     Inr (if c \<in> set (classList d n) then d else d\<lparr> classList := (classList d)(n := classList d n @ [c]) \<rparr>)"
| "domClass_add (NodeV n) _ d = Inr d"
| "domClass_add _ _ d = Inl TypeError"

section \<open>Classes and instances\<close>

text \<open>
  The classes that \<^verbatim>\<open>declare\<close> builds in the source, and those of dojo and dijit
  they are built from. \<open>Widget\<close>, \<open>ContainerWidget\<close> and \<open>UiWidget\<close> stand for
  the widgets a descriptor with a \<^verbatim>\<open>type\<close> brings into the tree: a plain
  dijit widget, one with child management, and one that is also a
  \<^verbatim>\<open>_UiComponent\<close>.
\<close>

datatype cls =
    Component | UiComponent | DomContentComponent | Control | Pane
  | Stateful | WidgetBase | Container | Contained | FixedSplitterPane
  | Widget | ContainerWidget | UiWidget

text \<open>The class and everything it inherits from, as the \<^verbatim>\<open>declare\<close> calls list them.\<close>

fun bases :: "cls \<Rightarrow> cls list" where
  "bases Component = [Component]"
| "bases UiComponent = [UiComponent, Component]"
| "bases DomContentComponent = [DomContentComponent, UiComponent, Component]"
| "bases Control = [Control, UiComponent, Component, Stateful]"
| "bases Pane = [Pane, UiComponent, Component, FixedSplitterPane, Contained, Container, WidgetBase, Stateful]"
| "bases Stateful = [Stateful]"
| "bases WidgetBase = [WidgetBase, Stateful]"
| "bases Container = [Container]"
| "bases Contained = [Contained]"
| "bases FixedSplitterPane = [FixedSplitterPane, Contained, Container, WidgetBase, Stateful]"
| "bases Widget = [Widget, WidgetBase, Stateful]"
| "bases ContainerWidget = [ContainerWidget, Container, WidgetBase, Stateful]"
| "bases UiWidget = [UiWidget, UiComponent, Component, WidgetBase, Stateful]"

record comp_instance =
  oid :: ref
  cls :: cls
  own :: "(string \<times> jsval) list"

definition isInstanceOf :: "comp_instance \<Rightarrow> cls \<Rightarrow> bool" where
  "isInstanceOf inst c = (c \<in> set (bases (cls inst)))"

text \<open>The properties the class declarations put on the prototype.\<close>

fun proto :: "cls \<Rightarrow> string \<Rightarrow> jsval" where
  "proto DomContentComponent k = (if k = ''domNode'' then Null else Undefined)"
| "proto Control k =
     (if k = ''attributeMap'' then Obj []
      else if k \<in> {''tag'', ''attrs'', ''content'', ''baseClass''} then Null
      else Undefined)"
| "proto _ k = Undefined"

definition get :: "comp_instance \<Rightarrow> string \<Rightarrow> jsval" where
  "get inst k = (case map_of (own inst) k of None \<Rightarrow> proto (cls inst) k | Some v \<Rightarrow> v)"

definition put :: "comp_instance \<Rightarrow> string \<Rightarrow> jsval \<Rightarrow> comp_instance" where
  "put inst k v = inst\<lparr> own := set_prop k v (own inst) \<rparr>"


section \<open>The world the components live in\<close>

datatype hook = StartupHook | DestroyHook

text \<open>
  The document, the widget registry of dijit (the root nodes of the registered
  widgets), a record of every \<^verbatim>\<open>startup()\<close> and \<^verbatim>\<open>destroy()\<close> call that reached
  an instance, and the next free object reference.
\<close>

record world =
  doc :: dom
  widgetRoots :: "node list"
  hookCalls :: "(hook \<times> ref) list"
  nextOid :: ref

definition empty_world :: world where
  "empty_world = \<lparr> doc = empty_dom, widgetRoots = [], hookCalls = [], nextOid = 0 \<rparr>"

type_synonym 'a result = "js_error + ('a \<times> world)"

text \<open>
  What the component code calls but does not define: the functions behind the
  function values (called with \<open>root\<close>, \<open>owner\<close>, \<open>self\<close>) and the inherited
  \<^verbatim>\<open>_Component._instantiateComponent\<close> that handles a descriptor with a \<^verbatim>\<open>type\<close>.
\<close>

record env =
  callFn :: "ref \<Rightarrow> jsval \<Rightarrow> jsval \<Rightarrow> jsval \<Rightarrow> jsval"
  inheritedInstantiate :: "jsval \<Rightarrow> jsval \<Rightarrow> jsval \<Rightarrow> world \<Rightarrow> comp_instance result"

text \<open>\<^verbatim>\<open>if (x.domNode && x.domNode.parentNode) x.domNode.parentNode.removeChild(x.domNode)\<close>.\<close>

definition remove_node :: "jsval \<Rightarrow> world \<Rightarrow> world" where
  "remove_node v w =
     (case as_node v of
        None \<Rightarrow> w
      | Some n \<Rightarrow> (if truthy v \<and> parentNode (doc w) n \<noteq> None
                   then w\<lparr> doc := remove_from_parent n (doc w) \<rparr> else w))"

text \<open>\<^verbatim>\<open>a == b\<close> on references, null and undefined (no coercion of numbers and strings).\<close>

definition loose_eq :: "jsval \<Rightarrow> jsval \<Rightarrow> bool" where
  "loose_eq a b = (a = b \<or> (a \<in> {Null, Undefined} \<and> b \<in> {Null, Undefined}))"

definition log_hook :: "hook \<Rightarrow> comp_instance \<Rightarrow> world \<Rightarrow> world" where
  "log_hook h inst w = w\<lparr> hookCalls := hookCalls w @ [(h, oid inst)] \<rparr>"

definition hook_count :: "hook \<Rightarrow> comp_instance \<Rightarrow> world \<Rightarrow> nat" where
  "hook_count h inst w = length (filter (\<lambda>c. c = (h, oid inst)) (hookCalls w))"

subsection \<open>The hooks of the base classes\<close>

text \<open>
  \<^verbatim>\<open>_WidgetBase.startup\<close> of dijit: \<^verbatim>\<open>if(this._started){ return; } this._started = true;\<close>
  and then the same for the child widgets, which this model does not hold.
\<close>

definition WidgetBase_startup :: "comp_instance \<Rightarrow> comp_instance" where
  "WidgetBase_startup inst =
     (if truthy (get inst ''_started'') then inst else put inst ''_started'' (BoolV True))"

text \<open>
  \<^verbatim>\<open>_WidgetBase.destroy\<close> of dijit: marks the widget (\<^verbatim>\<open>_beingDestroyed\<close>), destroys its
  rendering (the root node leaves the document and the property is deleted)
  and marks it \<^verbatim>\<open>_destroyed\<close>.
\<close>

definition WidgetBase_destroy :: "comp_instance \<Rightarrow> world \<Rightarrow> comp_instance \<times> world" where
  "WidgetBase_destroy inst w =
     (let i1 = put inst ''_beingDestroyed'' (BoolV True);
          w1 = remove_node (get i1 ''domNode'') w;
          i2 = i1\<lparr> own := filter (\<lambda>kv. fst kv \<noteq> ''domNode'') (own i1) \<rparr>
      in (put i2 ''_destroyed'' (BoolV True), w1))"

text \<open>
  Modelled from the spec: \<^verbatim>\<open>_Component\<close>, the generic component base, is not
  among the sources. The spec gives it tree bookkeeping only (walking the
  descriptors, keeping the children); its \<^verbatim>\<open>startup\<close> and \<^verbatim>\<open>destroy\<close> touch
  neither a node nor the \<^verbatim>\<open>_started\<close> and \<^verbatim>\<open>_beingDestroyed\<close> marks, which
  belong to the widget base.
\<close>

definition Component_startup :: "comp_instance \<Rightarrow> world \<Rightarrow> comp_instance \<times> world" where
  "Component_startup inst w = (inst, w)"

definition Component_destroy :: "comp_instance \<Rightarrow> world \<Rightarrow> comp_instance \<times> world" where
  "Component_destroy inst w = (inst, w)"

subsection \<open>DomContentComponent and Control\<close>

text \<open>\<^verbatim>\<open>constructor: function(props, node) { lang.mixin(this, props); this.domNode = node; }\<close>\<close>

definition new_DomContentComponent :: "jsval \<Rightarrow> jsval \<Rightarrow> world \<Rightarrow> comp_instance \<times> world" where
  "new_DomContentComponent props nodeV w =
     (put \<lparr> oid = nextOid w, cls = DomContentComponent, own = mixin [] props \<rparr> ''domNode'' nodeV,
      w\<lparr> nextOid := Suc (nextOid w) \<rparr>)"

definition DomContentComponent_destroy :: "comp_instance \<Rightarrow> world \<Rightarrow> comp_instance \<times> world" where
  "DomContentComponent_destroy inst w =
     (let (i1, w1) =
            (if truthy (get inst ''domNode'')
             then (put inst ''domNode'' Null, remove_node (get inst ''domNode'') w)
             else (inst, w))
      in Component_destroy i1 w1)"

definition DomContentComponent_getComponentValue :: "comp_instance \<Rightarrow> jsval" where
  "DomContentComponent_getComponentValue inst = get inst ''domNode''"

text \<open>
  \<^verbatim>\<open>constructor: function(props) { this.params = props; }\<close>, after which the
  \<^verbatim>\<open>postscript\<close> of dojo/Stateful writes every property of the parameter
  object onto the instance.
\<close>

definition new_Control :: "jsval \<Rightarrow> world \<Rightarrow> comp_instance \<times> world" where
  "new_Control props w =
     (\<lparr> oid = nextOid w, cls = Control, own = mixin [(''params'', props)] props \<rparr>,
      w\<lparr> nextOid := Suc (nextOid w) \<rparr>)"

definition resolve_content :: "env \<Rightarrow> jsval \<Rightarrow> jsval \<Rightarrow> jsval \<Rightarrow> jsval \<Rightarrow> jsval" where
  "resolve_content e content root owner self =
     (case content of FnV f \<Rightarrow> callFn e f root owner self | _ \<Rightarrow> content)"

definition Control_render :: "env \<Rightarrow> comp_instance \<Rightarrow> world \<Rightarrow> comp_instance result" where
  "Control_render e inst w =
     (if truthy (get inst ''domNode'') then Inr (inst, w)
      else
        (case (if truthy (get inst ''content'')
               then Inr (toDom (resolve_content e (get inst ''content'') (get inst ''_componentRoot'')
                                  (get inst ''_componentOwner'') (RefV (oid inst))) (doc w))
               else create (if truthy (get inst ''tag'') then get inst ''tag'' else StrV ''div'')
                      (get inst ''attrs'') (doc w)) of
           Inl err \<Rightarrow> Inl err
         | Inr (nodeV, d1) \<Rightarrow>
             (let i1 = put (put inst ''domNode'' nodeV) ''containerNode'' nodeV
              in if truthy (get i1 ''baseClass'')
                 then (case domClass_add nodeV (get i1 ''baseClass'') d1 of
                         Inl err \<Rightarrow> Inl err
                       | Inr d2 \<Rightarrow> Inr (i1, w\<lparr> doc := d2 \<rparr>))
                 else Inr (i1, w\<lparr> doc := d1 \<rparr>))))"

definition Control_remove :: "comp_instance \<Rightarrow> world \<Rightarrow> comp_instance \<times> world" where
  "Control_remove inst w = (inst, remove_node (get inst ''domNode'') w)"

definition Control_destroy :: "comp_instance \<Rightarrow> world \<Rightarrow> comp_instance \<times> world" where
  "Control_destroy inst w =
     (let (i1, w1) = Component_destroy inst w;
          w2 = remove_node (get i1 ''domNode'') w1
      in (put (put i1 ''containerNode'' Null) ''domNode'' Null, w2))"

subsection \<open>Calling an instance's hooks\<close>

text \<open>\<^verbatim>\<open>instance.startup()\<close> and \<^verbatim>\<open>instance.destroy()\<close>: the call is recorded, then the method of the instance's class runs.\<close>

definition startup :: "comp_instance \<Rightarrow> world \<Rightarrow> comp_instance result" where
  "startup inst w =
     (let w1 = log_hook StartupHook inst w
      in if isInstanceOf inst WidgetBase then Inr (WidgetBase_startup inst, w1)
         else Inr (Component_startup inst w1))"

definition destroy :: "comp_instance \<Rightarrow> world \<Rightarrow> comp_instance result" where
  "destroy inst w =
     (let w1 = log_hook DestroyHook inst w
      in if cls inst = DomContentComponent then Inr (DomContentComponent_destroy inst w1)
         else if cls inst = Control then Inr (Control_destroy inst w1)
         else if isInstanceOf inst WidgetBase then Inr (WidgetBase_destroy inst w1)
         else Inr (Component_destroy inst w1))"


section \<open>The methods of \<^verbatim>\<open>_UiComponent\<close>\<close>

subsection \<open>Lifecycle\<close>

definition startupChildComponent :: "comp_instance \<Rightarrow> world \<Rightarrow> comp_instance result" where
  "startupChildComponent inst w =
     (if isInstanceOf inst WidgetBase \<and> truthy (get inst ''_started'') then Inr (inst, w)
      else startup inst w)"

definition destroyChildComponent :: "comp_instance \<Rightarrow> world \<Rightarrow> comp_instance result" where
  "destroyChildComponent inst w =
     (if isInstanceOf inst WidgetBase \<and> truthy (get inst ''_beingDestroyed'') then Inr (inst, w)
      else destroy inst w)"

subsection \<open>The factory\<close>

text \<open>\<open>this\<close> is the component whose \<^verbatim>\<open>_instantiateComponent\<close> runs; a content function is called on it.\<close>

definition instantiateComponent ::
  "env \<Rightarrow> comp_instance \<Rightarrow> jsval \<Rightarrow> jsval \<Rightarrow> jsval \<Rightarrow> world \<Rightarrow> comp_instance result" where
  "instantiateComponent e this definition root owner w =
     (if truthy (get_field definition ''type'') then inheritedInstantiate e definition root owner w
      else if get_field definition ''domOnly'' \<noteq> BoolV False then
        (case (if truthy (get_field definition ''content'')
               then Inr (toDom (resolve_content e (get_field definition ''content'') root owner (RefV (oid this))) (doc w))
               else create (get_field definition ''tag'') (get_field definition ''attrs'') (doc w)) of
           Inl err \<Rightarrow> Inl err
         | Inr (nodeV, d1) \<Rightarrow>
             Inr (new_DomContentComponent
                    (Obj (mixin [(''components'', get_field definition ''components''),
                                 (''_componentRoot'', root),
                                 (''_componentOwner'', owner),
                                 (''_componentSource'', definition)]
                            (get_field definition ''props'')))
                    nodeV (w\<lparr> doc := d1 \<rparr>)))
      else
        Inr (new_Control
               (Obj (mixin [(''components'', get_field definition ''components''),
                            (''content'', get_field definition ''content''),
                            (''attrs'', get_field definition ''attrs''),
                            (''tag'', get_field definition ''tag''),
                            (''_componentRoot'', root),
                            (''_componentOwner'', owner),
                            (''_componentSource'', definition)]
                       (get_field definition ''props'')))
               w))"

subsection \<open>Attachment\<close>

text \<open>
  \<^verbatim>\<open>registry.findWidgets(root)\<close> of dijit, which \<^verbatim>\<open>getChildren()\<close> calls on the
  container node: the registered widget roots below \<open>root\<close>, in document
  order, not looking inside a widget. The descent is bounded by the number of
  nodes.
\<close>

fun findWidgets :: "nat \<Rightarrow> world \<Rightarrow> node \<Rightarrow> node list" where
  "findWidgets 0 w r = []"
| "findWidgets (Suc k) w r =
     concat (map (\<lambda>c. if c \<in> set (widgetRoots w) then [c] else findWidgets k w c)
                 (childNodes (doc w) r))"

definition getChildren :: "comp_instance \<Rightarrow> world \<Rightarrow> node list" where
  "getChildren this w =
     (case as_node (get this ''containerNode'') of
        None \<Rightarrow> []
      | Some r \<Rightarrow> findWidgets (nextNode (doc w)) w r)"

definition place_in :: "jsval \<Rightarrow> jsval \<Rightarrow> jsval \<Rightarrow> comp_instance \<Rightarrow> world \<Rightarrow> comp_instance result" where
  "place_in nodeV refNode pos inst w =
     (case place nodeV refNode pos (doc w) of
        Inl err \<Rightarrow> Inl err
      | Inr d1 \<Rightarrow> Inr (inst, w\<lparr> doc := d1 \<rparr>))"

text \<open>
  \<^verbatim>\<open>_Container.addChild(widget, insertIndex)\<close> of dijit:
  \<^verbatim>\<open>var refNode = this.containerNode;
  if(insertIndex && typeof insertIndex == "number"){
      var children = this.getChildren();
      if(children && children.length >= insertIndex){
          refNode = children[insertIndex-1].domNode; insertIndex = "after";
      }
  }
  domConstruct.place(widget.domNode, refNode, insertIndex);
  if(this._started && !widget._started){ widget.startup(); }\<close>
\<close>

definition addChild :: "comp_instance \<Rightarrow> comp_instance \<Rightarrow> jsval \<Rightarrow> world \<Rightarrow> comp_instance result" where
  "addChild this widget insertIndex w =
     (case (case insertIndex of
              NumV i \<Rightarrow>
                (if i \<noteq> 0 \<and> i \<le> int (length (getChildren this w))
                 then (if i < 1 then Inl TypeError
                       else Inr (NodeV (getChildren this w ! nat (i - 1)), StrV ''after''))
                 else Inr (get this ''containerNode'', insertIndex))
            | _ \<Rightarrow> Inr (get this ''containerNode'', insertIndex)) of
        Inl err \<Rightarrow> Inl err
      | Inr (refNode, pos) \<Rightarrow>
          (case place_in (get widget ''domNode'') refNode pos widget w of
             Inl err \<Rightarrow> Inl err
           | Inr (wd, w1) \<Rightarrow>
               (if truthy (get this ''_started'') \<and> \<not> truthy (get wd ''_started'')
                then startup wd w1 else Inr (wd, w1))))"

text \<open>
  \<^verbatim>\<open>_WidgetBase.placeAt(reference, position)\<close> of dijit, for a reference that is a
  node: \<^verbatim>\<open>domConstruct.place(this.domNode, reference, position)\<close>. (It then starts
  a widget placed under a started widget; the enclosing widget is not held
  in this model.)
\<close>

definition placeAt :: "comp_instance \<Rightarrow> jsval \<Rightarrow> jsval \<Rightarrow> world \<Rightarrow> comp_instance result" where
  "placeAt inst reference pos w = place_in (get inst ''domNode'') reference pos inst w"

text \<open>\<^verbatim>\<open>_Container.removeChild(widget)\<close> of dijit, for a widget given as an object.\<close>

definition removeChild :: "comp_instance \<Rightarrow> comp_instance \<Rightarrow> world \<Rightarrow> world" where
  "removeChild this widget w = remove_node (get widget ''domNode'') w"

definition referenceNode :: "comp_instance \<Rightarrow> jsval" where
  "referenceNode this =
     (if truthy (get this ''containerNode'') then get this ''containerNode'' else get this ''domNode'')"

definition attachUiComponent ::
  "comp_instance \<Rightarrow> comp_instance \<Rightarrow> jsval \<Rightarrow> world \<Rightarrow> comp_instance result" where
  "attachUiComponent this inst pos w =
     (if isInstanceOf inst WidgetBase then
        (if isInstanceOf this Container then addChild this inst pos w
         else if truthy (referenceNode this) then
           placeAt inst
             (if loose_eq (get inst ''domNode'') (referenceNode this)
              then get this ''domNode'' else referenceNode this) pos w
         else Inr (inst, w))
      else if truthy (get inst ''domNode'') then
        place_in (get inst ''domNode'')
          (if loose_eq (get inst ''domNode'') (referenceNode this)
           then get this ''domNode'' else referenceNode this) pos inst w
      else Inr (inst, w))"

definition detachUiComponent :: "comp_instance \<Rightarrow> comp_instance \<Rightarrow> world \<Rightarrow> comp_instance result" where
  "detachUiComponent this inst w =
     (if isInstanceOf inst WidgetBase then
        (if isInstanceOf this Container then Inr (inst, removeChild this inst w)
         else Inr (inst, remove_node (get inst ''domNode'') w))
      else Inr (inst, remove_node (get inst ''domNode'') w))"

section \<open>Running the operations in sequence\<close>

definition then_do :: "'a result \<Rightarrow> ('a \<Rightarrow> world \<Rightarrow> 'b result) \<Rightarrow> 'b result" where
  "then_do r f = (case r of Inl err \<Rightarrow> Inl err | Inr (x, w) \<Rightarrow> f x w)"

definition start_twice :: "comp_instance \<Rightarrow> world \<Rightarrow> comp_instance result" where
  "start_twice x w = then_do (startupChildComponent x w) startupChildComponent"

definition stop_twice :: "comp_instance \<Rightarrow> world \<Rightarrow> comp_instance result" where
  "stop_twice x w = then_do (destroyChildComponent x w) destroyChildComponent"

text \<open>How often a hook of \<open>x\<close> has been called once an operation has returned.\<close>

definition hooks_after :: "hook \<Rightarrow> comp_instance \<Rightarrow> comp_instance result \<Rightarrow> nat option" where
  "hooks_after h x r = (case r of Inl err \<Rightarrow> None | Inr (x', w') \<Rightarrow> Some (hook_count h x w'))"

section \<open>A small tree to run the operations on\<close>

text \<open>
  A list view: the owner is a widget-backed component without child
  management whose root is the \<^verbatim>\<open><ul class="list">\<close> node 0; the
  DomContentComponent \<open>ex_item\<close> wraps the \<^verbatim>\<open><li>A</li>\<close> node 1, attached under
  node 0; \<open>ex_control\<close> is the Control for \<^verbatim>\<open>{domOnly: false, tag: "div", attrs: {"data-x": "1"}}\<close>,
  not yet rendered.
\<close>

definition ex_env :: env where
  "ex_env = \<lparr> callFn = (\<lambda>f root owner self. StrV ''<li>A</li>''),
              inheritedInstantiate = (\<lambda>d root owner w. Inl TypeError) \<rparr>"

definition ex_dom :: dom where
  "ex_dom = \<lparr> nodeData = (\<lambda>n. if n = 0 then Some (Element ''ul'' [(''class'', StrV ''list'')])
                              else if n = 1 then Some (Parsed ''<li>A</li>'') else None),
              classList = (\<lambda>n. []),
              parentNode = (\<lambda>n. if n = 1 then Some 0 else None),
              childNodes = (\<lambda>n. if n = 0 then [1] else []),
              nextNode = 2 \<rparr>"

definition ex_world :: world where
  "ex_world = \<lparr> doc = ex_dom, widgetRoots = [0], hookCalls = [], nextOid = 3 \<rparr>"

definition ex_owner :: comp_instance where
  "ex_owner = \<lparr> oid = 0, cls = UiWidget, own = [(''domNode'', NodeV 0)] \<rparr>"

definition ex_item :: comp_instance where
  "ex_item = \<lparr> oid = 1, cls = DomContentComponent, own = [(''domNode'', NodeV 1)] \<rparr>"

definition ex_control :: comp_instance where
  "ex_control = \<lparr> oid = 2, cls = Control,
       own = [(''tag'', StrV ''div''), (''attrs'', Obj [(''data-x'', StrV ''1'')])] \<rparr>"

text \<open>The descriptors of the spec's scenarios, and one whose \<^verbatim>\<open>props\<close> name fields that the factory sets.\<close>

definition descr_list :: jsval where
  "descr_list = Obj [(''tag'', StrV ''ul''), (''attrs'', Obj [(''class'', StrV ''list'')]),
                     (''components'', Arr [Obj [(''content'', StrV ''<li>A</li>'')]])]"

definition descr_item :: jsval where
  "descr_item = Obj [(''content'', StrV ''<li>A</li>'')]"

definition descr_control :: jsval where
  "descr_control = Obj [(''domOnly'', BoolV False), (''tag'', StrV ''div''),
                        (''attrs'', Obj [(''data-x'', StrV ''1'')])]"

definition descr_props :: jsval where
  "descr_props = Obj [(''domOnly'', BoolV False), (''tag'', StrV ''div''),
                      (''props'', Obj [(''tag'', StrV ''span''), (''_componentRoot'', RefV 99)])]"

text \<open>
  A component whose container node (node 1) is the node of one of its own
  children, as when the child's descriptor has \<^verbatim>\<open>attachPoint: 'containerNode'\<close>;
  both nodes exist and are not yet placed.
\<close>

definition ex_two_nodes :: world where
  "ex_two_nodes = \<lparr> doc = \<lparr> nodeData = (\<lambda>n. if n < 2 then Some (Element ''div'' []) else None),
                             classList = (\<lambda>n. []), parentNode = (\<lambda>n. None),
                             childNodes = (\<lambda>n. []), nextNode = 2 \<rparr>,
                     widgetRoots = [], hookCalls = [], nextOid = 2 \<rparr>"

definition ex_shell :: comp_instance where
  "ex_shell = \<lparr> oid = 0, cls = UiWidget,
                 own = [(''domNode'', NodeV 0), (''containerNode'', NodeV 1)] \<rparr>"

definition ex_body :: comp_instance where
  "ex_body = \<lparr> oid = 1, cls = DomContentComponent, own = [(''domNode'', NodeV 1)] \<rparr>"

definition ex_pane :: comp_instance where
  "ex_pane = \<lparr> oid = 3, cls = Pane,
                own = [(''domNode'', NodeV 0), (''containerNode'', NodeV 0)] \<rparr>"

definition ex_widget :: comp_instance where
  "ex_widget = \<lparr> oid = 4, cls = Widget, own = [(''domNode'', NodeV 1)] \<rparr>"

text \<open>What an operation left behind: the parent of a node, and the children of a node.\<close>

definition parent_after :: "node \<Rightarrow> comp_instance result \<Rightarrow> node option" where
  "parent_after n r = (case r of Inl err \<Rightarrow> None | Inr (x, w') \<Rightarrow> parentNode (doc w') n)"

definition children_after :: "node \<Rightarrow> comp_instance result \<Rightarrow> node list option" where
  "children_after n r = (case r of Inl err \<Rightarrow> None | Inr (x, w') \<Rightarrow> Some (childNodes (doc w') n))"

definition node_after :: "comp_instance result \<Rightarrow> (cls \<times> jsval \<times> nat) option" where
  "node_after r = (case r of Inl err \<Rightarrow> None | Inr (x, w') \<Rightarrow> Some (cls x, get x ''domNode'', nextNode (doc w')))"



text \<open>
  Insertion by index in a list of children: at index \<open>p\<close>, or at the end when
  \<open>p\<close> is past the end; and one insertion after the other.
\<close>

definition insert_at :: "nat \<Rightarrow> node \<Rightarrow> node list \<Rightarrow> node list" where
  "insert_at p n cs = take p cs @ n # drop p cs"










section \<open>Properties of the property lists and instances\<close>

lemma map_of_set_prop: "map_of (set_prop k v kvs) = (map_of kvs)(k \<mapsto> v)"
  by (induction kvs) (auto simp: fun_eq_iff)

lemma map_of_filter_key:
  "map_of (filter (\<lambda>kv. fst kv \<noteq> d) kvs) k = (if k = d then None else map_of kvs k)"
  by (induction kvs) auto

lemma get_put: "get (put i k v) k' = (if k' = k then v else get i k')"
  by (simp add: get_def put_def map_of_set_prop split: option.splits)

lemma get_drop:
  "get (i\<lparr> own := filter (\<lambda>kv. fst kv \<noteq> d) (own i) \<rparr>) k = (if k = d then proto (cls i) k else get i k)"
  by (simp add: get_def map_of_filter_key split: option.splits)

lemma isInstanceOf_own [simp]: "isInstanceOf (i\<lparr> own := kvs \<rparr>) c = isInstanceOf i c"
  by (simp add: isInstanceOf_def)

lemma cls_put [simp]: "cls (put i k v) = cls i"
  by (simp add: put_def)

lemma oid_put [simp]: "oid (put i k v) = oid i"
  by (simp add: put_def)

lemma isInstanceOf_put [simp]: "isInstanceOf (put i k v) c = isInstanceOf i c"
  by (simp add: isInstanceOf_def)

lemma hook_count_log:
  "hook_count h x (log_hook h' y w) = hook_count h x w + (if (h', oid y) = (h, oid x) then 1 else 0)"
  by (simp add: hook_count_def log_hook_def)

lemma hook_count_remove_node [simp]: "hook_count h x (remove_node v w) = hook_count h x w"
  by (simp add: hook_count_def remove_node_def split: option.splits)

lemma widget_not_leaf:
  "isInstanceOf x WidgetBase \<Longrightarrow> cls x \<noteq> DomContentComponent \<and> cls x \<noteq> Control"
  by (auto simp: isInstanceOf_def)

section \<open>Starting and stopping twice\<close>

lemma start_twice_hooks:
  "hooks_after StartupHook x (start_twice x w) =
     Some (hook_count StartupHook x w +
       (if isInstanceOf x WidgetBase then (if truthy (get x ''_started'') then 0 else 1) else 2))"
  by (simp add: hooks_after_def start_twice_def then_do_def startupChildComponent_def startup_def
      WidgetBase_startup_def Component_startup_def Let_def get_put hook_count_log)

lemma stop_twice_hooks:
  "hooks_after DestroyHook x (stop_twice x w) =
     Some (hook_count DestroyHook x w +
       (if isInstanceOf x WidgetBase then (if truthy (get x ''_beingDestroyed'') then 0 else 1) else 2))"
proof (cases "isInstanceOf x WidgetBase")
  case True
  with widget_not_leaf [OF True] show ?thesis
    by (simp add: hooks_after_def stop_twice_def then_do_def destroyChildComponent_def destroy_def
        WidgetBase_destroy_def Let_def get_put get_drop hook_count_log)
next
  case False
  then show ?thesis
    by (simp add: hooks_after_def stop_twice_def then_do_def destroyChildComponent_def destroy_def
        DomContentComponent_destroy_def Control_destroy_def Component_destroy_def
        Let_def get_put hook_count_log split: prod.splits)
qed

text \<open>
  C1 (as the code has it). The guard of \<^verbatim>\<open>_startupChildComponent\<close> and
  \<^verbatim>\<open>_destroyChildComponent\<close> is \<^verbatim>\<open>instance.isInstanceOf(_WidgetBase) && flag\<close>:
  for a widget-capable instance that is not yet started (not yet being
  destroyed), starting (stopping) it twice calls its startup (destroy) hook
  exactly once, and not at all when the flag is already set; for an instance
  that is not widget-capable (a Control, a DomContentComponent) the guard never
  applies and each of the two calls reaches the hook.
\<close>

theorem start_stop_twice:
  "hooks_after StartupHook x (start_twice x w) =
     Some (hook_count StartupHook x w +
       (if isInstanceOf x WidgetBase then (if truthy (get x ''_started'') then 0 else 1) else 2))
   \<and> hooks_after DestroyHook x (stop_twice x w) =
     Some (hook_count DestroyHook x w +
       (if isInstanceOf x WidgetBase then (if truthy (get x ''_beingDestroyed'') then 0 else 1) else 2))"
  using start_twice_hooks stop_twice_hooks by simp

theorem start_stop_twice_witness:
  "hooks_after StartupHook \<lparr> oid = 7, cls = Widget, own = [] \<rparr>
     (start_twice \<lparr> oid = 7, cls = Widget, own = [] \<rparr> empty_world) = Some 1
   \<and> hooks_after DestroyHook \<lparr> oid = 7, cls = Widget, own = [] \<rparr>
     (stop_twice \<lparr> oid = 7, cls = Widget, own = [] \<rparr> empty_world) = Some 1"
  using start_stop_twice [of "\<lparr> oid = 7, cls = Widget, own = [] \<rparr>" empty_world]
  by (simp add: isInstanceOf_def get_def hook_count_def empty_world_def)

text \<open>
  C1 as stated fails for a Control: it is not an instance of \<^verbatim>\<open>_WidgetBase\<close>, so
  two calls of \<^verbatim>\<open>_startupChildComponent\<close> call \<^verbatim>\<open>startup()\<close> twice, and two calls
  of \<^verbatim>\<open>_destroyChildComponent\<close> call \<^verbatim>\<open>destroy()\<close> twice.
\<close>

theorem start_stop_twice_Control_counterexample:
  "hooks_after StartupHook \<lparr> oid = 0, cls = Control, own = [] \<rparr>
     (start_twice \<lparr> oid = 0, cls = Control, own = [] \<rparr> empty_world) = Some 2
   \<and> hooks_after DestroyHook \<lparr> oid = 0, cls = Control, own = [] \<rparr>
     (stop_twice \<lparr> oid = 0, cls = Control, own = [] \<rparr> empty_world) = Some 2"
  by (simp add: hooks_after_def start_twice_def stop_twice_def then_do_def
      startupChildComponent_def destroyChildComponent_def startup_def destroy_def
      Control_destroy_def Component_startup_def Component_destroy_def isInstanceOf_def
      log_hook_def hook_count_def empty_world_def remove_node_def get_def put_def Let_def)

section \<open>Rendering a Control\<close>

lemma create_truthy: "truthy tag \<Longrightarrow> create tag attrs d = Inr (v, d') \<Longrightarrow> truthy v"
  by (cases tag) (auto simp: create_def new_node_def Let_def split: if_splits sum.splits prod.splits)

lemma render_rendered: "truthy (get inst ''domNode'') \<Longrightarrow> Control_render e inst w = Inr (inst, w)"
  by (simp add: Control_render_def)

lemma render_sets_node:
  assumes "Control_render e inst w = Inr (i1, w1)"
  shows "truthy (get i1 ''domNode'')"
proof (cases "truthy (get inst ''domNode'')")
  case True
  with assms show ?thesis by (simp add: Control_render_def)
next
  case False
  show ?thesis
  proof (cases "truthy (get inst ''content'')")
    case True
    with False assms show ?thesis
      by (auto simp: Control_render_def Let_def get_put toDom_def new_node_def
          split: sum.splits if_splits prod.splits)
  next
    case c: False
    with False assms show ?thesis
      by (auto simp: Control_render_def Let_def get_put split: sum.splits if_splits prod.splits
          dest: create_truthy [rotated])
  qed
qed

text \<open>
  C5. \<^verbatim>\<open>Control.render()\<close> does nothing when the node is already set: it returns
  the instance and the document as they are. A render that returns leaves a
  node set, so a second render returns the very same instance, with the same
  node reference, and the same document.
\<close>

theorem render_idempotent:
  "(truthy (get inst ''domNode'') \<longrightarrow> Control_render e inst w = Inr (inst, w)) \<and>
   (Control_render e inst w = Inr (i1, w1) \<longrightarrow>
      truthy (get i1 ''domNode'') \<and> Control_render e i1 w1 = Inr (i1, w1))"
  using render_rendered render_sets_node by blast

theorem render_idempotent_witness:
  "\<exists>i1 w1. Control_render ex_env ex_control ex_world = Inr (i1, w1) \<and>
     get i1 ''domNode'' = NodeV 2 \<and>
     nodeData (doc w1) 2 = Some (Element ''div'' [(''data-x'', StrV ''1'')]) \<and>
     Control_render ex_env i1 w1 = Inr (i1, w1)"
proof -
  obtain i1 w1 where r: "Control_render ex_env ex_control ex_world = Inr (i1, w1)"
    and n: "get i1 ''domNode'' = NodeV 2"
    and e: "nodeData (doc w1) 2 = Some (Element ''div'' [(''data-x'', StrV ''1'')])"
    by (simp add: Control_render_def ex_control_def ex_world_def ex_dom_def ex_env_def get_def put_def
        create_def new_node_def valid_name_def name_chars_def name_start_chars_def Let_def)
  from render_idempotent [of ex_control ex_env ex_world i1 w1] r
  have "Control_render ex_env i1 w1 = Inr (i1, w1)" by simp
  with r n e show ?thesis by blast
qed

section \<open>Attachment that matches no branch\<close>

text \<open>
  C7. When the child is not widget-capable and has no node, or is
  widget-capable while the parent is no container and has no reference node,
  \<^verbatim>\<open>_attachUiComponent\<close> returns normally and changes nothing: the instance, the
  document and the record of calls are as before.
\<close>

theorem attach_no_branch:
  assumes "(\<not> isInstanceOf inst WidgetBase \<and> \<not> truthy (get inst ''domNode'')) \<or>
           (isInstanceOf inst WidgetBase \<and> \<not> isInstanceOf this Container \<and> \<not> truthy (referenceNode this))"
  shows "attachUiComponent this inst pos w = Inr (inst, w)"
  using assms by (auto simp: attachUiComponent_def)

theorem attach_no_branch_witness:
  "attachUiComponent ex_owner \<lparr> oid = 5, cls = DomContentComponent, own = [] \<rparr> (NumV 0) ex_world
     = Inr (\<lparr> oid = 5, cls = DomContentComponent, own = [] \<rparr>, ex_world)
   \<and> attachUiComponent \<lparr> oid = 6, cls = UiWidget, own = [] \<rparr> ex_owner (NumV 0) ex_world
     = Inr (ex_owner, ex_world)"
  using attach_no_branch [of "\<lparr> oid = 5, cls = DomContentComponent, own = [] \<rparr>" ex_owner "NumV 0" ex_world]
    attach_no_branch [of ex_owner "\<lparr> oid = 6, cls = UiWidget, own = [] \<rparr>" "NumV 0" ex_world]
  by (simp add: isInstanceOf_def get_def referenceNode_def ex_owner_def)

section \<open>A Control is no widget\<close>

text \<open>
  C9. A Control is declared from \<^verbatim>\<open>Stateful\<close> and \<^verbatim>\<open>_UiComponent\<close>; \<^verbatim>\<open>_WidgetBase\<close> is
  not among its bases, whatever it borrows from the widget prototype. So
  \<^verbatim>\<open>_attachUiComponent\<close> takes the plain-node branch for it (also under a
  container parent), and the guards of \<^verbatim>\<open>_startupChildComponent\<close> and
  \<^verbatim>\<open>_destroyChildComponent\<close> never hold back its \<^verbatim>\<open>startup()\<close> or \<^verbatim>\<open>destroy()\<close>.
\<close>

theorem Control_not_widget:
  assumes "cls x = Control"
  shows "\<not> isInstanceOf x WidgetBase \<and>
         attachUiComponent this x pos w =
           (if truthy (get x ''domNode'')
            then place_in (get x ''domNode'')
                   (if loose_eq (get x ''domNode'') (referenceNode this)
                    then get this ''domNode'' else referenceNode this) pos x w
            else Inr (x, w)) \<and>
         startupChildComponent x w = startup x w \<and>
         destroyChildComponent x w = destroy x w"
  using assms
  by (simp add: isInstanceOf_def attachUiComponent_def startupChildComponent_def
      destroyChildComponent_def)

theorem Control_not_widget_witness:
  "cls ex_control = Control \<and> \<not> isInstanceOf ex_control WidgetBase \<and>
   attachUiComponent ex_owner ex_control (NumV 0) ex_world = Inr (ex_control, ex_world) \<and>
   startupChildComponent (put ex_control ''_started'' (BoolV True)) ex_world
     = startup (put ex_control ''_started'' (BoolV True)) ex_world \<and>
   destroyChildComponent (put ex_control ''_beingDestroyed'' (BoolV True)) ex_world
     = destroy (put ex_control ''_beingDestroyed'' (BoolV True)) ex_world"
  using Control_not_widget [of ex_control ex_owner "NumV 0" ex_world]
    Control_not_widget [of "put ex_control ''_started'' (BoolV True)" ex_owner "NumV 0" ex_world]
    Control_not_widget [of "put ex_control ''_beingDestroyed'' (BoolV True)" ex_owner "NumV 0" ex_world]
  by (simp add: ex_control_def get_def)

section \<open>Detaching and destroying a DomContentComponent\<close>

lemma parentNode_remove_from_parent: "parentNode (remove_from_parent n d) n = None"
  by (simp add: remove_from_parent_def split: option.splits)

lemma remove_node_parent: "parentNode (doc (remove_node (NodeV n) w)) n = None"
  by (auto simp: remove_node_def parentNode_remove_from_parent)

lemma remove_node_twice: "remove_node (NodeV n) (remove_node (NodeV n) w) = remove_node (NodeV n) w"
  by (auto simp: remove_node_def parentNode_remove_from_parent)

lemma doc_log_hook [simp]: "doc (log_hook h x w) = doc w"
  by (simp add: log_hook_def)

lemma remove_node_log_hook: "remove_node v (log_hook h x w) = log_hook h x (remove_node v w)"
  by (auto simp: remove_node_def log_hook_def split: option.splits)

text \<open>
  C8. For a DomContentComponent wrapping the node \<open>n\<close>: after
  \<^verbatim>\<open>_detachUiComponent\<close> and then \<^verbatim>\<open>_destroyChildComponent\<close>, \<open>n\<close> has no parent
  node and the instance's \<^verbatim>\<open>domNode\<close> is null. \<^verbatim>\<open>destroy()\<close> on its own does the
  same: it takes the node out of its parent when it has one, and leaves the
  document as it is when the node was never attached.
\<close>

theorem DomOnlyNode_detach_stop:
  assumes "cls x = DomContentComponent" and "get x ''domNode'' = NodeV n"
  shows "(\<exists>x' w'. then_do (detachUiComponent this x w) destroyChildComponent = Inr (x', w') \<and>
            parentNode (doc w') n = None \<and> get x' ''domNode'' = Null) \<and>
         (\<exists>x' w'. destroyChildComponent x w = Inr (x', w') \<and>
            parentNode (doc w') n = None \<and> get x' ''domNode'' = Null \<and>
            doc w' = remove_from_parent n (doc w) \<and>
            (parentNode (doc w) n = None \<longrightarrow> doc w' = doc w))"
  using assms
  by (simp add: then_do_def detachUiComponent_def destroyChildComponent_def destroy_def
        DomContentComponent_destroy_def Component_destroy_def isInstanceOf_def Let_def get_put
        remove_node_parent remove_node_log_hook remove_node_twice)
     (auto simp: remove_node_def parentNode_remove_from_parent remove_from_parent_def)

theorem DomOnlyNode_detach_stop_witness:
  "cls ex_item = DomContentComponent \<and> get ex_item ''domNode'' = NodeV 1 \<and>
   parentNode (doc ex_world) 1 = Some 0 \<and>
   (\<exists>x' w'. then_do (detachUiComponent ex_owner ex_item ex_world) destroyChildComponent = Inr (x', w') \<and>
            parentNode (doc w') 1 = None \<and> get x' ''domNode'' = Null)"
  using DomOnlyNode_detach_stop [of ex_item 1 ex_owner ex_world]
  by (simp add: ex_item_def get_def ex_world_def ex_dom_def)

section \<open>Mixing properties in\<close>

lemma set_prop_keys: "fst ` set (set_prop k v kvs) = insert k (fst ` set kvs)"
  by (induction kvs) auto

lemma distinct_set_prop: "distinct (map fst kvs) \<Longrightarrow> distinct (map fst (set_prop k v kvs))"
  by (induction kvs) (auto simp: set_prop_keys)

lemma foldl_set_prop_keys:
  "fst ` set (foldl (\<lambda>acc kv. set_prop (fst kv) (snd kv) acc) dest src) = fst ` set dest \<union> fst ` set src"
  by (induction src arbitrary: dest) (auto simp: set_prop_keys)

lemma foldl_set_prop_distinct:
  "distinct (map fst dest) \<Longrightarrow>
   distinct (map fst (foldl (\<lambda>acc kv. set_prop (fst kv) (snd kv) acc) dest src))"
  by (induction src arbitrary: dest) (auto simp: distinct_set_prop)

lemma map_of_foldl_set_prop:
  "distinct (map fst src) \<Longrightarrow>
   map_of (foldl (\<lambda>acc kv. set_prop (fst kv) (snd kv) acc) dest src) k =
     (case map_of src k of None \<Rightarrow> map_of dest k | Some v \<Rightarrow> Some v)"
proof (induction src arbitrary: dest)
  case Nil
  then show ?case by simp
next
  case (Cons kv src)
  then have "map_of src (fst kv) = None"
    by (cases kv) (auto simp: map_of_eq_None_iff)
  with Cons show ?case
    by (cases kv) (auto simp: map_of_set_prop split: option.splits)
qed

lemma set_prop_append_fresh: "k \<notin> fst ` set kvs \<Longrightarrow> set_prop k v kvs = kvs @ [(k, v)]"
  by (induction kvs) auto

lemma foldl_set_prop_fresh:
  "distinct (map fst src) \<Longrightarrow> fst ` set dest \<inter> fst ` set src = {} \<Longrightarrow>
   foldl (\<lambda>acc kv. set_prop (fst kv) (snd kv) acc) dest src = dest @ src"
proof (induction src arbitrary: dest)
  case Nil
  then show ?case by simp
next
  case (Cons kv src)
  have "set_prop (fst kv) (snd kv) dest = dest @ [kv]"
    using Cons.prems(2) by (simp add: set_prop_append_fresh)
  moreover have "fst ` set (dest @ [kv]) \<inter> fst ` set src = {}"
    using Cons.prems by auto
  ultimately show ?case using Cons.IH [of "dest @ [kv]"] Cons.prems(1) by simp
qed

lemma mixin_empty: "distinct (map fst kvs) \<Longrightarrow> mixin [] (Obj kvs) = kvs"
  using foldl_set_prop_fresh [of kvs "[]"] by simp

lemma mixin_keys:
  "fst ` set (mixin dest v) \<subseteq> fst ` set dest \<union> (case v of Obj src \<Rightarrow> fst ` set src | _ \<Rightarrow> {})"
  by (cases v) (simp_all add: foldl_set_prop_keys)

lemma map_of_key: "k \<in> fst ` set kvs \<Longrightarrow> \<exists>v. map_of kvs k = Some v"
  by (cases "map_of kvs k") (auto simp: map_of_eq_None_iff)

lemma get_own: "map_of (own i) k \<noteq> None \<Longrightarrow> get i k = the (map_of (own i) k)"
  by (auto simp: get_def)

lemma get_absent: "k \<notin> fst ` set (own i) \<Longrightarrow> get i k = proto (cls i) k"
  using map_of_eq_None_iff [of "own i" k] by (simp add: get_def)

section \<open>What the factory builds\<close>

text \<open>
  C10. \<^verbatim>\<open>definition.props\<close> is mixed in after the fields the factory supplies.
  For a descriptor without a \<^verbatim>\<open>type\<close>, every key of \<^verbatim>\<open>props\<close> (other than
  \<^verbatim>\<open>domNode\<close>, which the DomContentComponent constructor writes last) reads on
  the created instance as \<^verbatim>\<open>props\<close> has it, also when the factory set the same
  key (\<^verbatim>\<open>components\<close>, \<^verbatim>\<open>content\<close>, \<^verbatim>\<open>attrs\<close>, \<^verbatim>\<open>tag\<close>, \<^verbatim>\<open>_componentRoot\<close>,
  \<^verbatim>\<open>_componentOwner\<close>, \<^verbatim>\<open>_componentSource\<close>). A Control is always created.
\<close>

theorem props_override:
  assumes "\<not> truthy (get_field d ''type'')"
    and "get_field d ''props'' = Obj ps" and "distinct (map fst ps)"
    and "k \<in> fst ` set ps" and "k \<noteq> ''domNode''"
  shows "(instantiateComponent e this d root owner w = Inr (x, w') \<longrightarrow> get x k = get_prop ps k) \<and>
         (get_field d ''domOnly'' = BoolV False \<longrightarrow>
            (\<exists>x w'. instantiateComponent e this d root owner w = Inr (x, w')))"
proof -
  obtain v where v: "map_of ps k = Some v" using assms(4) map_of_key by fastforce
  have P: "\<And>F. distinct (map fst F) \<Longrightarrow>
      distinct (map fst (mixin F (Obj ps))) \<and> map_of (mixin F (Obj ps)) k = Some v"
    using assms(3) v by (simp add: foldl_set_prop_distinct map_of_foldl_set_prop)
  have Q [simp]: "\<And>F G. distinct (map fst F) \<Longrightarrow> map_of (mixin G (Obj (mixin F (Obj ps)))) k = Some v"
    using P by (simp add: map_of_foldl_set_prop)
  show ?thesis
    using assms(1,2,5) v
    by (auto simp: instantiateComponent_def new_DomContentComponent_def new_Control_def get_put
        get_own get_prop_def simp del: mixin.simps split: sum.splits if_splits prod.splits)
qed

theorem props_override_witness:
  "\<exists>x w'. instantiateComponent ex_env ex_owner descr_props (RefV 10) (RefV 11) ex_world = Inr (x, w') \<and>
     get x ''tag'' = StrV ''span'' \<and> get x ''_componentRoot'' = RefV 99 \<and>
     get x ''_componentOwner'' = RefV 11"
proof -
  obtain x w' where r: "instantiateComponent ex_env ex_owner descr_props (RefV 10) (RefV 11) ex_world = Inr (x, w')"
    and o: "get x ''_componentOwner'' = RefV 11"
    by (simp add: instantiateComponent_def descr_props_def get_prop_def new_Control_def get_def)
  have "get x ''tag'' = StrV ''span''"
    using r props_override [of descr_props "[(''tag'', StrV ''span''), (''_componentRoot'', RefV 99)]"
        "''tag''" ex_env ex_owner "RefV 10" "RefV 11" ex_world x w']
    by (simp add: descr_props_def get_prop_def)
  moreover have "get x ''_componentRoot'' = RefV 99"
    using r props_override [of descr_props "[(''tag'', StrV ''span''), (''_componentRoot'', RefV 99)]"
        "''_componentRoot''" ex_env ex_owner "RefV 10" "RefV 11" ex_world x w']
    by (simp add: descr_props_def get_prop_def)
  ultimately show ?thesis using r o by blast
qed

lemma instantiate_content:
  assumes "\<not> truthy (get_field d ''type'')" "get_field d ''domOnly'' \<noteq> BoolV False"
    "truthy (get_field d ''content'')"
  shows "\<exists>x w'. instantiateComponent e this d root owner w = Inr (x, w') \<and> cls x = DomContentComponent \<and>
          get x ''domNode'' = NodeV (nextNode (doc w)) \<and>
          nodeData (doc w') (nextNode (doc w)) = Some (Parsed (markup_of
             (resolve_content e (get_field d ''content'') root owner (RefV (oid this)))))"
  using assms
  by (simp add: instantiateComponent_def new_DomContentComponent_def toDom_def new_node_def
      get_put Let_def del: mixin.simps)

lemma resolve_content_fn: "resolve_content e (FnV f) root owner self = callFn e f root owner self"
  by (simp add: resolve_content_def)

lemma resolve_content_verbatim: "\<not> isFunction c \<Longrightarrow> resolve_content e c root owner self = c"
  by (cases c) (simp_all add: resolve_content_def)

lemma attr_set_fresh:
  assumes "nodeData d n = Some (Element t [])"
    and "(attrs = Obj as \<and> distinct (map fst as)) \<or> (\<not> truthy attrs \<and> as = [])"
  shows "\<exists>d'. attr_set (NodeV n) attrs d = Inr d' \<and> nodeData d' n = Some (Element t as)"
  using assms
  by (cases attrs) (auto simp: mixin_empty simp del: mixin.simps)

lemma create_element:
  assumes "valid_name t"
    and "(attrs = Obj as \<and> distinct (map fst as)) \<or> (\<not> truthy attrs \<and> as = [])"
  shows "\<exists>d'. create (StrV t) attrs d = Inr (NodeV (nextNode d), d') \<and>
           nodeData d' (nextNode d) = Some (Element t as)"
proof -
  let ?d1 = "snd (new_node (Element t []) d)"
  have nd: "nodeData ?d1 (nextNode d) = Some (Element t [])"
    by (simp add: new_node_def)
  from attr_set_fresh [OF nd assms(2)] obtain d' where
    d': "attr_set (NodeV (nextNode d)) attrs ?d1 = Inr d'" "nodeData d' (nextNode d) = Some (Element t as)"
    by blast
  show ?thesis
  proof (cases "truthy attrs")
    case True
    with assms(1) d' show ?thesis
      by (simp add: create_def new_node_def Let_def)
  next
    case False
    with assms show ?thesis
      by (auto simp: create_def new_node_def Let_def)
  qed
qed

lemma instantiate_tag:
  assumes "\<not> truthy (get_field d ''type'')" "get_field d ''domOnly'' \<noteq> BoolV False"
    "\<not> truthy (get_field d ''content'')" "get_field d ''tag'' = StrV t" "valid_name t"
    "(get_field d ''attrs'' = Obj as \<and> distinct (map fst as)) \<or> (\<not> truthy (get_field d ''attrs'') \<and> as = [])"
  shows "\<exists>x w'. instantiateComponent e this d root owner w = Inr (x, w') \<and> cls x = DomContentComponent \<and>
          get x ''domNode'' = NodeV (nextNode (doc w)) \<and>
          nodeData (doc w') (nextNode (doc w)) = Some (Element t as)"
proof -
  from create_element [OF assms(5,6), of "doc w"] obtain d' where
    "create (StrV t) (get_field d ''attrs'') (doc w) = Inr (NodeV (nextNode (doc w)), d')"
    "nodeData d' (nextNode (doc w)) = Some (Element t as)" by blast
  with assms(1-4) show ?thesis
    by (simp add: instantiateComponent_def new_DomContentComponent_def get_put del: mixin.simps)
qed

lemma instantiate_control:
  assumes "\<not> truthy (get_field d ''type'')" "get_field d ''domOnly'' = BoolV False"
  shows "\<exists>x w'. instantiateComponent e this d root owner w = Inr (x, w') \<and> cls x = Control \<and>
          doc w' = doc w \<and>
          ((\<forall>ps. get_field d ''props'' = Obj ps \<longrightarrow> ''domNode'' \<notin> fst ` set ps) \<longrightarrow>
             get x ''domNode'' = Undefined)"
proof -
  let ?F = "[(''components'', get_field d ''components''), (''content'', get_field d ''content''),
             (''attrs'', get_field d ''attrs''), (''tag'', get_field d ''tag''),
             (''_componentRoot'', root), (''_componentOwner'', owner), (''_componentSource'', d)]"
  let ?P = "mixin ?F (get_field d ''props'')"
  let ?x = "\<lparr> oid = nextOid w, cls = Control, own = mixin [(''params'', Obj ?P)] (Obj ?P) \<rparr>"
  have r: "instantiateComponent e this d root owner w = Inr (?x, w\<lparr> nextOid := Suc (nextOid w) \<rparr>)"
    using assms by (simp add: instantiateComponent_def new_Control_def del: mixin.simps)
  have "get ?x ''domNode'' = Undefined"
    if "\<forall>ps. get_field d ''props'' = Obj ps \<longrightarrow> ''domNode'' \<notin> fst ` set ps"
  proof -
    have "''domNode'' \<notin> fst ` set ?P"
      using that mixin_keys [of ?F "get_field d ''props''"]
      by (cases "get_field d ''props''") (auto simp del: mixin.simps)
    then have "''domNode'' \<notin> fst ` set (own ?x)"
      using mixin_keys [of "[(''params'', Obj ?P)]" "Obj ?P"] by (auto simp del: mixin.simps)
    then show ?thesis using get_absent [of "''domNode''" ?x] by simp
  qed
  with r show ?thesis by (auto simp del: mixin.simps)
qed

text \<open>
  C3. For a descriptor without a \<^verbatim>\<open>type\<close>:
  \<^item> with \<^verbatim>\<open>domOnly\<close> unset or true and a \<^verbatim>\<open>content\<close>, the factory returns a
    DomContentComponent whose node is a new node, the parse of the content:
    of what the content returns when called with (root, owner, self) if it is
    a function, of the content itself if not;
  \<^item> with \<^verbatim>\<open>domOnly\<close> unset or true, no content and a \<^verbatim>\<open>tag\<close>, it returns a
    DomContentComponent whose node is a new element of that kind with the
    descriptor's \<^verbatim>\<open>attrs\<close> (none when there are none);
  \<^item> with \<^verbatim>\<open>domOnly === false\<close> it returns a Control and creates no node: the
    document is unchanged and the Control has no \<^verbatim>\<open>domNode\<close> (unless \<^verbatim>\<open>props\<close>
    hands it one); a node is there once \<^verbatim>\<open>render()\<close> has returned.
\<close>

theorem instantiate_leaf:
  assumes "\<not> truthy (get_field d ''type'')"
  shows "(get_field d ''domOnly'' \<noteq> BoolV False \<and> truthy (get_field d ''content'') \<longrightarrow>
           (\<exists>x w'. instantiateComponent e this d root owner w = Inr (x, w') \<and> cls x = DomContentComponent \<and>
              get x ''domNode'' = NodeV (nextNode (doc w)) \<and>
              nodeData (doc w') (nextNode (doc w)) = Some (Parsed (markup_of
                (resolve_content e (get_field d ''content'') root owner (RefV (oid this)))))) \<and>
           (\<forall>f. get_field d ''content'' = FnV f \<longrightarrow>
              resolve_content e (get_field d ''content'') root owner (RefV (oid this))
                = callFn e f root owner (RefV (oid this))) \<and>
           (\<not> isFunction (get_field d ''content'') \<longrightarrow>
              resolve_content e (get_field d ''content'') root owner (RefV (oid this))
                = get_field d ''content''))
       \<and> (get_field d ''domOnly'' \<noteq> BoolV False \<and> \<not> truthy (get_field d ''content'') \<and>
            get_field d ''tag'' = StrV t \<and> valid_name t \<and>
            ((get_field d ''attrs'' = Obj as \<and> distinct (map fst as)) \<or>
             (\<not> truthy (get_field d ''attrs'') \<and> as = [])) \<longrightarrow>
           (\<exists>x w'. instantiateComponent e this d root owner w = Inr (x, w') \<and> cls x = DomContentComponent \<and>
              get x ''domNode'' = NodeV (nextNode (doc w)) \<and>
              nodeData (doc w') (nextNode (doc w)) = Some (Element t as)))
       \<and> (get_field d ''domOnly'' = BoolV False \<longrightarrow>
           (\<exists>x w'. instantiateComponent e this d root owner w = Inr (x, w') \<and> cls x = Control \<and>
              doc w' = doc w \<and>
              ((\<forall>ps. get_field d ''props'' = Obj ps \<longrightarrow> ''domNode'' \<notin> fst ` set ps) \<longrightarrow>
                 get x ''domNode'' = Undefined) \<and>
              (\<forall>i1 w1. Control_render e x w' = Inr (i1, w1) \<longrightarrow> truthy (get i1 ''domNode''))))"
proof (intro conjI impI)
  assume a: "get_field d ''domOnly'' \<noteq> BoolV False \<and> truthy (get_field d ''content'')"
  with assms instantiate_content [of d e this root owner w]
  show "\<exists>x w'. instantiateComponent e this d root owner w = Inr (x, w') \<and> cls x = DomContentComponent \<and>
              get x ''domNode'' = NodeV (nextNode (doc w)) \<and>
              nodeData (doc w') (nextNode (doc w)) = Some (Parsed (markup_of
                (resolve_content e (get_field d ''content'') root owner (RefV (oid this)))))"
    by simp
  show "\<forall>f. get_field d ''content'' = FnV f \<longrightarrow>
              resolve_content e (get_field d ''content'') root owner (RefV (oid this))
                = callFn e f root owner (RefV (oid this))"
    by (simp add: resolve_content_fn)
next
  assume "\<not> isFunction (get_field d ''content'')"
  then show "resolve_content e (get_field d ''content'') root owner (RefV (oid this)) = get_field d ''content''"
    by (rule resolve_content_verbatim)
next
  assume "get_field d ''domOnly'' \<noteq> BoolV False \<and> \<not> truthy (get_field d ''content'') \<and>
            get_field d ''tag'' = StrV t \<and> valid_name t \<and>
            ((get_field d ''attrs'' = Obj as \<and> distinct (map fst as)) \<or>
             (\<not> truthy (get_field d ''attrs'') \<and> as = []))"
  with assms instantiate_tag [of d t as e this root owner w]
  show "\<exists>x w'. instantiateComponent e this d root owner w = Inr (x, w') \<and> cls x = DomContentComponent \<and>
              get x ''domNode'' = NodeV (nextNode (doc w)) \<and>
              nodeData (doc w') (nextNode (doc w)) = Some (Element t as)"
    by blast
next
  assume "get_field d ''domOnly'' = BoolV False"
  with assms instantiate_control [of d e this root owner w] render_sets_node
  show "\<exists>x w'. instantiateComponent e this d root owner w = Inr (x, w') \<and> cls x = Control \<and>
              doc w' = doc w \<and>
              ((\<forall>ps. get_field d ''props'' = Obj ps \<longrightarrow> ''domNode'' \<notin> fst ` set ps) \<longrightarrow>
                 get x ''domNode'' = Undefined) \<and>
              (\<forall>i1 w1. Control_render e x w' = Inr (i1, w1) \<longrightarrow> truthy (get i1 ''domNode''))"
    by blast
qed

theorem instantiate_leaf_witness:
  "(\<exists>x w'. instantiateComponent ex_env ex_owner descr_list (RefV 10) (RefV 11) empty_world = Inr (x, w') \<and>
      cls x = DomContentComponent \<and> get x ''domNode'' = NodeV 0 \<and>
      nodeData (doc w') 0 = Some (Element ''ul'' [(''class'', StrV ''list'')]))
   \<and> (\<exists>x w'. instantiateComponent ex_env ex_owner descr_item (RefV 10) (RefV 11) ex_world = Inr (x, w') \<and>
      cls x = DomContentComponent \<and> get x ''domNode'' = NodeV 2 \<and>
      nodeData (doc w') 2 = Some (Parsed ''<li>A</li>''))
   \<and> (\<exists>x w'. instantiateComponent ex_env ex_owner descr_control (RefV 10) (RefV 11) ex_world = Inr (x, w') \<and>
      cls x = Control \<and> doc w' = doc ex_world \<and> get x ''domNode'' = Undefined)"
proof -
  have l1: "\<not> truthy (get_field descr_list ''type'')"
    and l2: "get_field descr_list ''domOnly'' \<noteq> BoolV False \<and> \<not> truthy (get_field descr_list ''content'') \<and>
             get_field descr_list ''tag'' = StrV ''ul'' \<and> valid_name ''ul'' \<and>
             ((get_field descr_list ''attrs'' = Obj [(''class'', StrV ''list'')] \<and>
               distinct (map fst [(''class'', StrV ''list'')])) \<or>
              (\<not> truthy (get_field descr_list ''attrs'') \<and> [(''class'', StrV ''list'')] = []))"
    by (simp_all add: descr_list_def get_prop_def valid_name_def name_chars_def name_start_chars_def)
  have i1: "\<not> truthy (get_field descr_item ''type'')"
    and i2: "get_field descr_item ''domOnly'' \<noteq> BoolV False \<and> truthy (get_field descr_item ''content'')"
    and i3: "markup_of (resolve_content ex_env (get_field descr_item ''content'') (RefV 10) (RefV 11)
               (RefV (oid ex_owner))) = ''<li>A</li>''"
    by (simp_all add: descr_item_def get_prop_def resolve_content_def)
  have c1: "\<not> truthy (get_field descr_control ''type'')"
    and c2: "get_field descr_control ''domOnly'' = BoolV False"
    and c3: "\<forall>ps. get_field descr_control ''props'' = Obj ps \<longrightarrow> ''domNode'' \<notin> fst ` set ps"
    by (simp_all add: descr_control_def get_prop_def)
  have n0: "nextNode (doc empty_world) = 0" and n2: "nextNode (doc ex_world) = 2"
    by (simp_all add: empty_world_def empty_dom_def ex_world_def ex_dom_def)
  from instantiate_leaf [OF l1, where t = "''ul''" and as = "[(''class'', StrV ''list'')]"
      and e = ex_env and this = ex_owner and root = "RefV 10" and owner = "RefV 11" and w = empty_world] l2
  have a: "\<exists>x w'. instantiateComponent ex_env ex_owner descr_list (RefV 10) (RefV 11) empty_world = Inr (x, w') \<and>
      cls x = DomContentComponent \<and> get x ''domNode'' = NodeV 0 \<and>
      nodeData (doc w') 0 = Some (Element ''ul'' [(''class'', StrV ''list'')])"
    unfolding n0 by blast
  from instantiate_leaf [OF i1, where t = "''ul''" and as = "[]"
      and e = ex_env and this = ex_owner and root = "RefV 10" and owner = "RefV 11" and w = ex_world] i2
  have b: "\<exists>x w'. instantiateComponent ex_env ex_owner descr_item (RefV 10) (RefV 11) ex_world = Inr (x, w') \<and>
      cls x = DomContentComponent \<and> get x ''domNode'' = NodeV 2 \<and>
      nodeData (doc w') 2 = Some (Parsed ''<li>A</li>'')"
    unfolding n2 i3 by blast
  from instantiate_leaf [OF c1, where t = "''ul''" and as = "[]"
      and e = ex_env and this = ex_owner and root = "RefV 10" and owner = "RefV 11" and w = ex_world] c2 c3
  have c: "\<exists>x w'. instantiateComponent ex_env ex_owner descr_control (RefV 10) (RefV 11) ex_world = Inr (x, w') \<and>
      cls x = Control \<and> doc w' = doc ex_world \<and> get x ''domNode'' = Undefined"
    by blast
  from a b c show ?thesis by blast
qed

text \<open>
  C2, at a descriptor with neither \<^verbatim>\<open>tag\<close> nor \<^verbatim>\<open>content\<close>. \<^verbatim>\<open>Control.render\<close> creates
  \<^verbatim>\<open>this.tag || 'div'\<close>; the factory's markup-only branch hands \<^verbatim>\<open>definition.tag\<close>
  to \<^verbatim>\<open>domConstruct.create\<close> as it is. For the descriptor \<^verbatim>\<open>{}\<close> no element is
  created and the DomContentComponent wraps \<^verbatim>\<open>undefined\<close>; with \<^verbatim>\<open>attrs\<close> but no tag
  the attributes are set on \<^verbatim>\<open>undefined\<close>, which raises. The Control for
  \<^verbatim>\<open>{domOnly: false}\<close> renders a node.
\<close>

theorem factory_missing_tag:
  "node_after (instantiateComponent ex_env ex_owner (Obj []) (RefV 10) (RefV 11) empty_world)
     = Some (DomContentComponent, Undefined, 0) \<and>
   instantiateComponent ex_env ex_owner (Obj [(''attrs'', Obj [(''class'', StrV ''list'')])])
     (RefV 10) (RefV 11) empty_world = Inl TypeError \<and>
   node_after (then_do (instantiateComponent ex_env ex_owner (Obj [(''domOnly'', BoolV False)])
                  (RefV 10) (RefV 11) empty_world) (Control_render ex_env))
     = Some (Control, NodeV 0, 1)"
  by (simp add: node_after_def instantiateComponent_def create_def get_prop_def new_DomContentComponent_def
      get_def put_def empty_world_def empty_dom_def then_do_def new_Control_def Control_render_def
      new_node_def valid_name_def name_chars_def name_start_chars_def Let_def)

section \<open>Where a child is placed\<close>

lemmas attach_eval =
  attachUiComponent_def place_in_def place_def appendChild_def inclusive_ancestor_def
  remove_from_parent_def referenceNode_def get_def loose_eq_def isInstanceOf_def
  addChild_def placeAt_def getChildren_def insert_after_ref_def insert_before_ref_def
  insertBefore_def Let_def eval_nat_numeral

lemma insert_before_list_mem: "n \<in> set (insert_before_list n r cs)"
  by (induction cs) auto

lemma appendChild_inside:
  "appendChild t n d = Inr d' \<Longrightarrow> parentNode d' n = Some t \<and> n \<in> set (childNodes d' t)"
  by (auto simp: appendChild_def Let_def split: if_splits)

lemma insertBefore_inside:
  assumes "insertBefore t n c d = Inr d'" "c \<in> set (childNodes d t)" "parentNode d c = Some t"
  shows "parentNode d' n = Some t \<and> n \<in> set (childNodes d' t)"
  using assms
  by (auto simp: insertBefore_def Let_def insert_before_list_mem split: if_splits)

lemma place_at_inside:
  assumes "place_at n t pos d = Inr d'" "\<forall>s. pos \<noteq> StrV s"
    and "\<forall>c\<in>set (childNodes d t). parentNode d c = Some t"
  shows "parentNode d' n = Some t \<and> n \<in> set (childNodes d' t)"
proof (cases pos)
  case (NumV i)
  let ?cn = "childNodes d t"
  show ?thesis
  proof (cases "?cn = [] \<or> int (length ?cn) \<le> i")
    case True
    with assms(1) NumV show ?thesis by (auto simp: Let_def dest: appendChild_inside)
  next
    case False
    let ?c = "?cn ! (if i < 0 then 0 else nat i)"
    from False have m: "?c \<in> set ?cn" by (auto intro!: nth_mem)
    with assms(3) have p: "parentNode d ?c = Some t" by blast
    from assms(1) NumV False have "insertBefore t n ?c d = Inr d'"
      by (simp add: Let_def insert_before_ref_def p)
    from insertBefore_inside [OF this m p] show ?thesis .
  qed
next
  case (StrV s)
  with assms(2) show ?thesis by simp
qed (use assms(1) in \<open>auto dest: appendChild_inside\<close>)

lemma place_in_inside:
  assumes "place_in (NodeV n) (NodeV t) pos x w = Inr (x', w')" "\<forall>s. pos \<noteq> StrV s"
    and "\<forall>c\<in>set (childNodes (doc w) t). parentNode (doc w) c = Some t"
  shows "parentNode (doc w') n = Some t \<and> n \<in> set (childNodes (doc w') t)"
proof -
  from assms(1) obtain d' where "place_at n t pos (doc w) = Inr d'" "doc w' = d'"
    by (auto simp: place_in_def place_def split: sum.splits)
  with place_at_inside [OF _ assms(2,3)] show ?thesis by simp
qed

lemma attach_inside:
  assumes "\<not> (isInstanceOf inst WidgetBase \<and> isInstanceOf this Container)"
    and "get inst ''domNode'' = NodeV n"
    and "(if loose_eq (get inst ''domNode'') (referenceNode this)
          then get this ''domNode'' else referenceNode this) = NodeV t"
    and "\<forall>s. pos \<noteq> StrV s"
    and "\<forall>c\<in>set (childNodes (doc w) t). parentNode (doc w) c = Some t"
    and "attachUiComponent this inst pos w = Inr (x', w')"
  shows "parentNode (doc w') n = Some t \<and> n \<in> set (childNodes (doc w') t)"
proof -
  have tr: "truthy (referenceNode this)"
    using assms(3) by (auto simp: referenceNode_def split: if_splits)
  from assms(1,2,3,6) tr have "place_in (NodeV n) (NodeV t) pos inst w = Inr (x', w')"
    by (auto simp: attachUiComponent_def placeAt_def split: if_splits)
  from place_in_inside [OF this assms(4,5)] show ?thesis .
qed

text \<open>
  C4 (as the code has it). \<^verbatim>\<open>_attachUiComponent\<close> dispatches on capability: a
  widget-capable child under a container-capable parent goes through the
  parent's \<^verbatim>\<open>addChild\<close> at the position; a widget-capable child under another
  parent with a reference node is placed, with \<^verbatim>\<open>placeAt\<close>, into the reference
  node, or into the parent's own node when the child's node is the reference
  node; a child that is not widget-capable and has a node has that node
  placed into the reference node, with the same fallback to the parent's own
  node when the child's node is the reference node. In the two branches that
  place a node, with a position that is a number or absent, a call that
  returns leaves the child's node among the children of that target node.
\<close>

theorem attach_dispatch:
  "(isInstanceOf inst WidgetBase \<and> isInstanceOf this Container \<longrightarrow>
      attachUiComponent this inst pos w = addChild this inst pos w) \<and>
   (isInstanceOf inst WidgetBase \<and> \<not> isInstanceOf this Container \<and> truthy (referenceNode this) \<longrightarrow>
      attachUiComponent this inst pos w =
        placeAt inst (if loose_eq (get inst ''domNode'') (referenceNode this)
                      then get this ''domNode'' else referenceNode this) pos w) \<and>
   (\<not> isInstanceOf inst WidgetBase \<and> truthy (get inst ''domNode'') \<longrightarrow>
      attachUiComponent this inst pos w =
        place_in (get inst ''domNode'')
          (if loose_eq (get inst ''domNode'') (referenceNode this)
           then get this ''domNode'' else referenceNode this) pos inst w) \<and>
   (\<not> (isInstanceOf inst WidgetBase \<and> isInstanceOf this Container) \<and>
    get inst ''domNode'' = NodeV n \<and>
    (if loose_eq (get inst ''domNode'') (referenceNode this)
     then get this ''domNode'' else referenceNode this) = NodeV t \<and>
    (\<forall>s. pos \<noteq> StrV s) \<and>
    (\<forall>c\<in>set (childNodes (doc w) t). parentNode (doc w) c = Some t) \<and>
    attachUiComponent this inst pos w = Inr (x', w') \<longrightarrow>
      parentNode (doc w') n = Some t \<and> n \<in> set (childNodes (doc w') t))"
  apply (intro conjI)
  subgoal by (simp add: attachUiComponent_def)
  subgoal by (simp add: attachUiComponent_def)
  subgoal by (simp add: attachUiComponent_def)
  subgoal using attach_inside [of inst this n t pos w x' w'] by blast
  done

theorem attach_dispatch_witness:
  "children_after 0 (attachUiComponent ex_pane ex_widget (NumV 0) ex_two_nodes) = Some [1] \<and>
   children_after 0 (attachUiComponent ex_shell ex_widget (NumV 0) ex_two_nodes) = Some [1] \<and>
   children_after 0 (attachUiComponent ex_owner ex_body (NumV 0) ex_two_nodes) = Some [1] \<and>
   (\<exists>x' w'. attachUiComponent ex_shell ex_body (NumV 0) ex_two_nodes = Inr (x', w') \<and>
      parentNode (doc w') 1 = Some 0 \<and> 1 \<in> set (childNodes (doc w') 0))"
proof -
  have a: "attachUiComponent ex_pane ex_widget (NumV 0) ex_two_nodes
             = addChild ex_pane ex_widget (NumV 0) ex_two_nodes"
    using attach_dispatch [of ex_widget ex_pane "NumV 0" ex_two_nodes]
    by (simp add: isInstanceOf_def ex_pane_def ex_widget_def)
  have b: "attachUiComponent ex_shell ex_widget (NumV 0) ex_two_nodes
             = placeAt ex_widget (NodeV 0) (NumV 0) ex_two_nodes"
    using attach_dispatch [of ex_widget ex_shell "NumV 0" ex_two_nodes]
    by (simp add: isInstanceOf_def ex_shell_def ex_widget_def referenceNode_def get_def loose_eq_def)
  have c: "attachUiComponent ex_owner ex_body (NumV 0) ex_two_nodes
             = place_in (NodeV 1) (NodeV 0) (NumV 0) ex_body ex_two_nodes"
    using attach_dispatch [of ex_body ex_owner "NumV 0" ex_two_nodes]
    by (simp add: isInstanceOf_def ex_owner_def ex_body_def referenceNode_def get_def loose_eq_def)
  obtain x' w' where r: "attachUiComponent ex_shell ex_body (NumV 0) ex_two_nodes = Inr (x', w')"
    by (simp add: attach_eval ex_shell_def ex_body_def ex_two_nodes_def)
  have d: "parentNode (doc w') 1 = Some 0 \<and> 1 \<in> set (childNodes (doc w') 0)"
    using r attach_dispatch [of ex_body ex_shell "NumV 0" ex_two_nodes 1 0 x' w']
    by (simp add: isInstanceOf_def ex_shell_def ex_body_def referenceNode_def get_def loose_eq_def
        ex_two_nodes_def)
  have "children_after 0 (addChild ex_pane ex_widget (NumV 0) ex_two_nodes) = Some [1]"
    "children_after 0 (placeAt ex_widget (NodeV 0) (NumV 0) ex_two_nodes) = Some [1]"
    "children_after 0 (place_in (NodeV 1) (NodeV 0) (NumV 0) ex_body ex_two_nodes) = Some [1]"
    by (simp_all add: attach_eval children_after_def ex_pane_def ex_widget_def ex_body_def
        ex_two_nodes_def)
  with a b c r d show ?thesis by auto
qed

text \<open>
  C4 as stated says that the node of a child that is not widget-capable goes
  into the reference node. When that node is the reference node itself (the
  parent's container node is the child's node), the code places it into the
  parent's own node; placing it into the reference node would put the node
  under itself, which the document refuses.
\<close>

theorem attach_plain_node_counterexample:
  "\<not> isInstanceOf ex_body WidgetBase \<and> get ex_body ''domNode'' = NodeV 1 \<and>
   referenceNode ex_shell = NodeV 1 \<and>
   parent_after 1 (attachUiComponent ex_shell ex_body (NumV 0) ex_two_nodes) = Some 0 \<and>
   place_in (NodeV 1) (referenceNode ex_shell) (NumV 0) ex_body ex_two_nodes = Inl HierarchyRequestError"
  by (simp add: attach_eval parent_after_def ex_shell_def ex_body_def ex_two_nodes_def)

section \<open>The order of the children\<close>








lemma set_insert_at [simp]: "set (insert_at p n cs) = insert n (set cs)"
proof -
  have "set (take p cs) \<union> set (drop p cs) = set cs"
    by (metis append_take_drop_id set_append)
  then show ?thesis by (auto simp: insert_at_def)
qed

























end
